theory Spec2Isabelle
  imports Complex_Main
begin

section \<open>Replaying an SGF game record into positions (sgf\_wrapper.py)\<close>

text \<open>
  The module walks the main line of a parsed SGF game and yields, for every node, the
  position reached there, the move recorded at the following node and the result of the
  game. The board itself (\<open>go.Position\<close>, \<open>place_stone\<close>, \<open>deduce_groups\<close>), the
  coordinate decoder (\<open>utils.parse_sgf_coords\<close>, imported as \<open>pc\<close>) and the SGF parser
  live in other modules. The functions of this module are embedded here as they are
  written; what they call from elsewhere is passed in as a record of collaborators.
\<close>

subsection \<open>Values of the host language\<close>

text \<open>The exceptions the statements of this module can raise.\<close>

datatype py_error =
  IndexError | KeyError | AttributeError | TypeError | ValueError | AssertionError

text \<open>
  What \<open>sgf_prop\<close> hands back is \<open>None\<close>, one element of the list, or the list.
\<close>

datatype 'a sgf_value = NoValue | Scalar 'a | Values "'a list"

subsection \<open>Data\<close>

text \<open>
  A node of the parsed game: its property dictionary \<open>node.properties\<close> (key to list of
  raw values) and \<open>node.next\<close>, the node that follows it on the main line, if any.
\<close>

datatype node = Node (properties: "string \<Rightarrow> string list option") (next_child: "node option")

text \<open>
  \<open>go.Position\<close> is a named tuple. This module reads and replaces four of its fields;
  whatever else it carries stays in the extension part of the record.
\<close>

record ('b, 'g, 'k) Position =
  board :: 'b
  groups :: 'g
  komi :: 'k
  player1turn :: bool

text \<open>
  The collaborators: \<open>pc\<close> decodes a raw coordinate, \<open>place_stone\<close> puts a stone of a
  colour (1 is Black, -1 is White) on a board, \<open>deduce_groups\<close> recomputes the group
  data of a board, \<open>play_move\<close> is \<open>Position.play_move\<close> (\<open>None\<close> for an illegal
  move), \<open>initial_state\<close> is \<open>Position.initial_state\<close>, given the process-wide board
  size that it reads, and \<open>py_int\<close>, \<open>py_float\<close> are the conversions
  \<open>int\<close> and \<open>float\<close> applied to a string (\<open>None\<close> where they raise ValueError).
\<close>

record ('c, 'b, 'g, 'k, 'p) collaborators =
  pc :: "string \<Rightarrow> 'c"
  place_stone :: "'b \<Rightarrow> int \<Rightarrow> 'c \<Rightarrow> 'b"
  deduce_groups :: "'b \<Rightarrow> 'g"
  play_move :: "'p \<Rightarrow> 'c \<Rightarrow> 'p option"
  initial_state :: "int \<Rightarrow> 'p"
  py_int :: "string \<Rightarrow> int option"
  py_float :: "string \<Rightarrow> 'k option"

text \<open>The object built by \<open>SgfWrapper.__init__\<close>: \<open>self.game.root\<close>, the root of the
  first game, and \<open>self.result\<close>, \<open>self.komi\<close>, \<open>self.board_size\<close> as decoded from the
  root properties.\<close>

record 'k SgfWrapper =
  sgf_game :: node
  sgf_result :: "string sgf_value"
  sgf_komi :: 'k
  sgf_board_size :: int

text \<open>The named tuple \<open>PositionWithContext\<close>.\<close>

record 'p PositionWithContext =
  position :: "'p option"
  next_move :: "string option"
  result :: "string sgf_value"

subsection \<open>sgf\_prop\<close>

fun sgf_prop :: "'a list option \<Rightarrow> 'a sgf_value" where
  "sgf_prop None = NoValue"
| "sgf_prop (Some [x]) = Scalar x"
| "sgf_prop (Some xs) = Values xs"

subsection \<open>handle\_add\_stones\<close>

text \<open>One of the two \<open>for\<close> loops: every raw coordinate of the list is decoded and a
  stone of the given colour is placed on the working board.\<close>

fun add_stones ::
  "('c, 'b, 'g, 'k, 'p, 'y) collaborators_scheme \<Rightarrow> 'b \<Rightarrow> int \<Rightarrow> string list \<Rightarrow> 'b" where
  "add_stones cb working_board color [] = working_board"
| "add_stones cb working_board color (s # ss) =
     add_stones cb (place_stone cb working_board color (pc cb s)) color ss"

text \<open>\<open>dict.get(key, [])\<close>.\<close>

definition get_or_empty :: "(string \<Rightarrow> string list option) \<Rightarrow> string \<Rightarrow> string list" where
  "get_or_empty props key = (case props key of None \<Rightarrow> [] | Some vs \<Rightarrow> vs)"

definition handle_add_stones ::
  "('c, 'b, 'g, 'k, 'p, 'y) collaborators_scheme \<Rightarrow> ('b, 'g, 'k, 'z) Position_scheme \<Rightarrow> node
    \<Rightarrow> ('b, 'g, 'k, 'z) Position_scheme" where
  "handle_add_stones cb pos nd =
     (let black_stones_added = get_or_empty (properties nd) ''AB'';
          white_stones_added = get_or_empty (properties nd) ''AW'';
          working_board =
            add_stones cb (add_stones cb (board pos) 1 black_stones_added) (- 1) white_stones_added
      in if black_stones_added \<noteq> [] \<or> white_stones_added \<noteq> []
         then pos\<lparr>board := working_board, groups := deduce_groups cb working_board\<rparr>
         else pos)"

subsection \<open>get\_next\_move\<close>

text \<open>\<open>vs[0] or None\<close>: the first raw value, with the empty string turned into
  \<open>None\<close>; indexing an empty list raises.\<close>

definition first_or_none :: "string list \<Rightarrow> py_error + string option" where
  "first_or_none vs =
     (case vs of [] \<Rightarrow> Inl IndexError | v # _ \<Rightarrow> Inr (if v = [] then None else Some v))"

definition get_next_move :: "node \<Rightarrow> py_error + (string option \<times> string option)" where
  "get_next_move nd =
     (case next_child nd of
        None \<Rightarrow> Inr (None, None)
      | Some n \<Rightarrow>
          (case properties n ''W'' of
             Some vs \<Rightarrow>
               (case first_or_none vs of Inl e \<Rightarrow> Inl e | Inr v \<Rightarrow> Inr (Some ''W'', v))
           | None \<Rightarrow>
               (case properties n ''B'' of
                  None \<Rightarrow> Inl KeyError
                | Some vs \<Rightarrow>
                    (case first_or_none vs of Inl e \<Rightarrow> Inl e | Inr v \<Rightarrow> Inr (Some ''B'', v)))))"

subsection \<open>handle\_play\_stones\<close>

text \<open>\<open>vs[0]\<close>.\<close>

definition first_value :: "string list \<Rightarrow> py_error + string" where
  "first_value vs = (case vs of [] \<Rightarrow> Inl IndexError | v # _ \<Rightarrow> Inr v)"

text \<open>The first statement: the move recorded at the node is played, a White entry
  taking precedence; a node without a move leaves the position as it is.\<close>

definition play_recorded ::
  "('c, 'b, 'g, 'k, 'p, 'y) collaborators_scheme \<Rightarrow> 'p \<Rightarrow> node \<Rightarrow> py_error + 'p option" where
  "play_recorded cb pos nd =
     (case properties nd ''W'' of
        Some vs \<Rightarrow>
          (case first_value vs of Inl e \<Rightarrow> Inl e | Inr v \<Rightarrow> Inr (play_move cb pos (pc cb v)))
      | None \<Rightarrow>
          (case properties nd ''B'' of
             Some vs \<Rightarrow>
               (case first_value vs of Inl e \<Rightarrow> Inl e | Inr v \<Rightarrow> Inr (play_move cb pos (pc cb v)))
           | None \<Rightarrow> Inr (Some pos)))"

text \<open>The last statements: the turn flag is set from the colour recorded at the next
  node. Reading \<open>player1turn\<close> of \<open>None\<close> raises AttributeError; the flag is read
  only when the next colour is \<open>'W'\<close> or \<open>'B'\<close>.\<close>

definition correct_turn ::
  "string option \<Rightarrow> ('b, 'g, 'k, 'z) Position_scheme option
    \<Rightarrow> py_error + ('b, 'g, 'k, 'z) Position_scheme option" where
  "correct_turn next_player pos =
     (if next_player = Some ''W'' then
        (case pos of
           None \<Rightarrow> Inl AttributeError
         | Some p \<Rightarrow> if player1turn p then Inr (Some (p\<lparr>player1turn := False\<rparr>)) else Inr (Some p))
      else if next_player = Some ''B'' then
        (case pos of
           None \<Rightarrow> Inl AttributeError
         | Some p \<Rightarrow> if \<not> player1turn p then Inr (Some (p\<lparr>player1turn := True\<rparr>)) else Inr (Some p))
      else Inr pos)"

definition handle_play_stones ::
  "('c, 'b, 'g, 'k, ('b, 'g, 'k, 'z) Position_scheme, 'y) collaborators_scheme
    \<Rightarrow> ('b, 'g, 'k, 'z) Position_scheme \<Rightarrow> node
    \<Rightarrow> py_error + ('b, 'g, 'k, 'z) Position_scheme option" where
  "handle_play_stones cb pos nd =
     (case play_recorded cb pos nd of
        Inl e \<Rightarrow> Inl e
      | Inr pos1 \<Rightarrow>
          (case get_next_move nd of
             Inl e \<Rightarrow> Inl e
           | Inr (next_player, _) \<Rightarrow> correct_turn next_player pos1))"

subsection \<open>PositionWithContext.is\_usable\<close>

definition is_usable :: "('p, 'y) PositionWithContext_scheme \<Rightarrow> bool" where
  "is_usable r \<longleftrightarrow> position r \<noteq> None \<and> next_move r \<noteq> None \<and> result r \<noteq> Scalar ''Void''"

subsection \<open>SgfWrapper\<close>

text \<open>\<open>int(v)\<close> and \<open>float(v)\<close> for a value that \<open>sgf_prop\<close> returned: \<open>None\<close> and a
  list are a TypeError, a string that does not parse is a ValueError.\<close>

definition int_of_value ::
  "('c, 'b, 'g, 'k, 'p, 'y) collaborators_scheme \<Rightarrow> string sgf_value \<Rightarrow> py_error + int" where
  "int_of_value cb v =
     (case v of
        Scalar s \<Rightarrow> (case py_int cb s of None \<Rightarrow> Inl ValueError | Some n \<Rightarrow> Inr n)
      | _ \<Rightarrow> Inl TypeError)"

definition float_of_value ::
  "('c, 'b, 'g, 'k, 'p, 'y) collaborators_scheme \<Rightarrow> string sgf_value \<Rightarrow> py_error + 'k" where
  "float_of_value cb v =
     (case v of
        Scalar s \<Rightarrow> (case py_float cb s of None \<Rightarrow> Inl ValueError | Some x \<Rightarrow> Inr x)
      | _ \<Rightarrow> Inl TypeError)"

text \<open>
  \<open>SgfWrapper.__init__\<close>, from the parsed collection on (a game is given by its root
  node; \<open>sgf.parse\<close> is the parser's business). \<open>children[0]\<close> raises on an empty
  collection, the \<open>assert\<close> raises AssertionError. This is the object that is built;
  what the last statement writes to the \<open>go\<close> module is \<open>board_size_after_init\<close> below.
\<close>

definition SgfWrapper_init ::
  "('c, 'b, 'g, 'k, 'p, 'y) collaborators_scheme \<Rightarrow> node list \<Rightarrow> py_error + 'k SgfWrapper" where
  "SgfWrapper_init cb collection =
     (case collection of
        [] \<Rightarrow> Inl IndexError
      | game # _ \<Rightarrow>
          (let props = properties game in
           case int_of_value cb
                  (sgf_prop (Some (case props ''GM'' of None \<Rightarrow> [''1''] | Some vs \<Rightarrow> vs))) of
             Inl e \<Rightarrow> Inl e
           | Inr gm \<Rightarrow>
               if gm \<noteq> 1 then Inl AssertionError
               else
                 (case float_of_value cb (sgf_prop (props ''KM'')) of
                    Inl e \<Rightarrow> Inl e
                  | Inr k \<Rightarrow>
                      (case int_of_value cb (sgf_prop (props ''SZ'')) of
                         Inl e \<Rightarrow> Inl e
                       | Inr sz \<Rightarrow>
                           Inr \<lparr>sgf_game = game, sgf_result = sgf_prop (props ''RE''),
                                sgf_komi = k, sgf_board_size = sz\<rparr>))))"

text \<open>
  The \<open>while\<close> loop of \<open>get_main_branch\<close>, entered with a position and a node that are
  both present. The generator is modelled by what it has yielded, in order, and by the
  exception that ended it, if one did. A record is yielded after the node's setup stones
  and move have been applied; the loop goes on while both the position and the next node
  are present.
\<close>

fun main_branch_loop ::
  "('c, 'b, 'g, 'k, ('b, 'g, 'k, 'z) Position_scheme, 'y) collaborators_scheme
    \<Rightarrow> string sgf_value \<Rightarrow> ('b, 'g, 'k, 'z) Position_scheme \<Rightarrow> node
    \<Rightarrow> ('b, 'g, 'k, 'z) Position_scheme PositionWithContext list \<times> py_error option" where
  "main_branch_loop cb res pos (Node props nxt) =
     (case handle_play_stones cb (handle_add_stones cb pos (Node props nxt)) (Node props nxt) of
        Inl e \<Rightarrow> ([], Some e)
      | Inr pos2 \<Rightarrow>
          (case get_next_move (Node props nxt) of
             Inl e \<Rightarrow> ([], Some e)
           | Inr (_, nm) \<Rightarrow>
               (let r = \<lparr>position = pos2, next_move = nm, result = res\<rparr> in
                case pos2 of
                  None \<Rightarrow> ([r], None)
                | Some p \<Rightarrow>
                    (case nxt of
                       None \<Rightarrow> ([r], None)
                     | Some n \<Rightarrow>
                         (case main_branch_loop cb res p n of (rs, e) \<Rightarrow> (r # rs, e))))))"

text \<open>
  The board size of the \<open>go\<close> module is process-wide state. The last statement of
  \<open>__init__\<close>, \<open>go.set_board_size(self.board_size)\<close>, writes it; it is not reached when
  \<open>__init__\<close> raises. Given the size \<open>n\<close> before the call, this is the size after it.
\<close>

definition board_size_after_init ::
  "('c, 'b, 'g, 'k, 'p, 'y) collaborators_scheme \<Rightarrow> int \<Rightarrow> node list \<Rightarrow> int" where
  "board_size_after_init cb n collection =
     (case SgfWrapper_init cb collection of Inl e \<Rightarrow> n | Inr self \<Rightarrow> sgf_board_size self)"

text \<open>
  \<open>get_main_branch\<close> is a generator: its body runs when the first record is asked for.
  \<open>Position.initial_state()\<close> takes no argument and builds the empty position for the
  process-wide board size at that moment, \<open>n\<close> here, which is the size set by the
  wrapper constructed last and not necessarily \<open>self.board_size\<close>.
\<close>

definition get_main_branch ::
  "('c, 'b, 'g, 'k, ('b, 'g, 'k, 'z) Position_scheme, 'y) collaborators_scheme
    \<Rightarrow> int \<Rightarrow> ('k, 'w) SgfWrapper_scheme
    \<Rightarrow> ('b, 'g, 'k, 'z) Position_scheme PositionWithContext list \<times> py_error option" where
  "get_main_branch cb n self =
     main_branch_loop cb (sgf_result self)
       ((initial_state cb n)\<lparr>komi := sgf_komi self\<rparr>) (sgf_game self)"

subsection \<open>The setup placement of the board module\<close>

text \<open>
  Modelled from the spec: \<open>place_stone\<close> of the board module (\<open>go.py\<close>) is not among
  the sources. The spec gives the board as a mapping from coordinate to stone colour or
  empty, and \<open>place_stone(board, color, coordinate) -> board\<close> as the setup-only
  placement, with no capture resolution: the board with that colour at that coordinate
  and every other point as before.
\<close>

definition place_stone_spec :: "('c \<Rightarrow> int) \<Rightarrow> int \<Rightarrow> 'c \<Rightarrow> ('c \<Rightarrow> int)" where
  "place_stone_spec working_board color c = working_board(c := color)"

subsection \<open>A board to run the functions on\<close>

text \<open>
  A small board module to instantiate the collaborators with, so that the functions above
  can be evaluated on concrete game records: coordinates are the raw strings themselves, a
  board maps a coordinate to 1, -1 or 0, a move on an occupied point is illegal, any other
  move puts down a stone of the side to move and passes the turn, and the empty raw
  coordinate is a pass.
\<close>

abbreviation small_board ::
  "(string, string \<Rightarrow> int, unit, real, (string \<Rightarrow> int, unit, real) Position) collaborators" where
  "small_board \<equiv>
     \<lparr>pc = (\<lambda>s. s),
      place_stone = (\<lambda>b color c. b(c := color)),
      deduce_groups = (\<lambda>b. ()),
      play_move = (\<lambda>p c.
        if c = [] then Some (p\<lparr>player1turn := \<not> player1turn p\<rparr>)
        else if board p c \<noteq> 0 then None
        else Some (p\<lparr>board := (board p)(c := (if player1turn p then 1 else - 1)),
                     player1turn := \<not> player1turn p\<rparr>)),
      initial_state = (\<lambda>n. \<lparr>board = (\<lambda>c. 0), groups = (), komi = 0, player1turn = True\<rparr>),
      py_int = (\<lambda>s. if s = ''1'' then Some 1 else if s = ''2'' then Some 2
                     else if s = ''9'' then Some 9 else None),
      py_float = (\<lambda>s. if s = ''6.5'' then Some 6.5 else None)\<rparr>"

section \<open>Properties\<close>

text \<open>
  The definitions that a walk over a concrete record unfolds.
\<close>

lemmas walk_defs =
  handle_play_stones_def handle_add_stones_def get_or_empty_def play_recorded_def
  get_next_move_def first_value_def first_or_none_def correct_turn_def

subsection \<open>sgf\_prop and is\_usable\<close>

text \<open>
  C6. A record is usable exactly when its position is present, its next move is present
  and its result is not the string \<open>Void\<close>.
\<close>

theorem is_usable_iff:
  "is_usable r =
     ((\<exists>p. position r = Some p) \<and> (\<exists>m. next_move r = Some m) \<and> result r \<noteq> Scalar ''Void'')"
  by (auto simp add: is_usable_def)

text \<open>
  C5. \<open>sgf_prop\<close> never fails: a missing list gives \<open>None\<close>, a list of exactly one
  value gives that value, and every other list, the empty one too, is returned as it is.
\<close>

theorem sgf_prop_cases:
  "sgf_prop v =
     (case v of
        None \<Rightarrow> NoValue
      | Some xs \<Rightarrow> if length xs = 1 then Scalar (hd xs) else Values xs)"
proof (cases v)
  case None
  then show ?thesis by simp
next
  case (Some xs)
  show ?thesis
  proof (cases xs)
    case Nil
    with Some show ?thesis by simp
  next
    case (Cons x ys)
    with Some show ?thesis by (cases ys) simp_all
  qed
qed

text \<open>The empty list is not turned into \<open>None\<close>: it comes back as the empty list.\<close>

theorem sgf_prop_empty_list_counterexample:
  "sgf_prop (Some ([] :: string list)) = Values [] \<and> sgf_prop (Some ([] :: string list)) \<noteq> NoValue"
  by simp

subsection \<open>handle\_add\_stones\<close>

text \<open>
  Each loop places its stones one after the other, in the order of the list: it is the
  left fold of \<open>place_stone\<close> at the decoded coordinates.
\<close>

lemma add_stones_foldl:
  "add_stones cb b color ss = foldl (\<lambda>wb s. place_stone cb wb color (pc cb s)) b ss"
  by (induction ss arbitrary: b) simp_all

text \<open>
  C8. A node with neither an \<open>AB\<close> nor an \<open>AW\<close> property leaves the position as it is.
  When the black list \<open>bs\<close> or the white list \<open>ws\<close> of the node is not empty, the result is
  the position with a new board and new groups and every other field unchanged: the board
  is the old one with a stone of colour 1 placed at every decoded coordinate of \<open>bs\<close>, in
  list order, and then a stone of colour -1 at every decoded coordinate of \<open>ws\<close>, in list
  order; the groups are \<open>deduce_groups\<close> of exactly that board.
\<close>

theorem handle_add_stones_cases:
  "(properties nd ''AB'' = None \<and> properties nd ''AW'' = None
      \<longrightarrow> handle_add_stones cb pos nd = pos) \<and>
   ((case properties nd ''AB'' of None \<Rightarrow> [] | Some vs \<Rightarrow> vs) = bs \<and>
    (case properties nd ''AW'' of None \<Rightarrow> [] | Some vs \<Rightarrow> vs) = ws \<and>
    (bs \<noteq> [] \<or> ws \<noteq> [])
      \<longrightarrow> handle_add_stones cb pos nd
            = pos\<lparr>board :=
                    foldl (\<lambda>wb s. place_stone cb wb (- 1) (pc cb s))
                      (foldl (\<lambda>wb s. place_stone cb wb 1 (pc cb s)) (board pos) bs) ws,
                  groups :=
                    deduce_groups cb
                      (foldl (\<lambda>wb s. place_stone cb wb (- 1) (pc cb s))
                        (foldl (\<lambda>wb s. place_stone cb wb 1 (pc cb s)) (board pos) bs) ws)\<rparr> \<and>
          groups (handle_add_stones cb pos nd)
            = deduce_groups cb (board (handle_add_stones cb pos nd)) \<and>
          komi (handle_add_stones cb pos nd) = komi pos \<and>
          player1turn (handle_add_stones cb pos nd) = player1turn pos)"
proof (intro conjI impI)
  assume "properties nd ''AB'' = None \<and> properties nd ''AW'' = None"
  then show "handle_add_stones cb pos nd = pos"
    by (simp add: handle_add_stones_def get_or_empty_def)
next
  assume a: "(case properties nd ''AB'' of None \<Rightarrow> [] | Some vs \<Rightarrow> vs) = bs \<and>
    (case properties nd ''AW'' of None \<Rightarrow> [] | Some vs \<Rightarrow> vs) = ws \<and>
    (bs \<noteq> [] \<or> ws \<noteq> [])"
  let ?wb = "foldl (\<lambda>wb s. place_stone cb wb (- 1) (pc cb s))
                      (foldl (\<lambda>wb s. place_stone cb wb 1 (pc cb s)) (board pos) bs) ws"
  from a have bs: "get_or_empty (properties nd) ''AB'' = bs"
    and ws: "get_or_empty (properties nd) ''AW'' = ws"
    by (simp_all add: get_or_empty_def)
  from a have ne: "bs \<noteq> [] \<or> ws \<noteq> []"
    by simp
  have r: "handle_add_stones cb pos nd = pos\<lparr>board := ?wb, groups := deduce_groups cb ?wb\<rparr>"
    unfolding handle_add_stones_def bs ws Let_def add_stones_foldl
    using ne by simp
  then show "handle_add_stones cb pos nd = pos\<lparr>board := ?wb, groups := deduce_groups cb ?wb\<rparr>" .
  from r show "groups (handle_add_stones cb pos nd)
            = deduce_groups cb (board (handle_add_stones cb pos nd))"
    by simp
  from r show "komi (handle_add_stones cb pos nd) = komi pos"
    by simp
  from r show "player1turn (handle_add_stones cb pos nd) = player1turn pos"
    by simp
qed

text \<open>
  A node with only a comment leaves the position alone. \<open>AB[dd][pp]AW[dp]\<close> on a board
  that already holds a black stone at \<open>cc\<close>: the three stones are on the new board, the old
  stone is still there, every other point is empty and the turn flag has not moved.
\<close>

theorem handle_add_stones_cases_witness:
  "handle_add_stones small_board
       \<lparr>board = (\<lambda>c. 0), groups = (), komi = 6.5, player1turn = True\<rparr>
       (Node [''C'' \<mapsto> [''a comment'']] None)
     = \<lparr>board = (\<lambda>c. 0), groups = (), komi = 6.5, player1turn = True\<rparr> \<and>
   handle_add_stones small_board
       \<lparr>board = (\<lambda>c. 0)(''cc'' := 1), groups = (), komi = 6.5, player1turn = False\<rparr>
       (Node [''AB'' \<mapsto> [''dd'', ''pp''], ''AW'' \<mapsto> [''dp'']] None)
     = \<lparr>board = (\<lambda>c. 0)(''cc'' := 1, ''dd'' := 1, ''pp'' := 1, ''dp'' := - 1), groups = (),
        komi = 6.5, player1turn = False\<rparr> \<and>
   map (board (handle_add_stones small_board
       \<lparr>board = (\<lambda>c. 0)(''cc'' := 1), groups = (), komi = 6.5, player1turn = False\<rparr>
       (Node [''AB'' \<mapsto> [''dd'', ''pp''], ''AW'' \<mapsto> [''dp'']] None)))
     [''cc'', ''dd'', ''pp'', ''dp'', ''aa''] = [1, 1, 1, - 1, 0]"
  using handle_add_stones_cases [where cb = small_board
      and nd = "Node [''C'' \<mapsto> [''a comment'']] None"
      and pos = "\<lparr>board = (\<lambda>c. 0), groups = (), komi = 6.5, player1turn = True\<rparr>"
      and bs = "[]" and ws = "[]"]
    handle_add_stones_cases [where cb = small_board
      and nd = "Node [''AB'' \<mapsto> [''dd'', ''pp''], ''AW'' \<mapsto> [''dp'']] None"
      and pos = "\<lparr>board = (\<lambda>c. 0)(''cc'' := 1), groups = (), komi = 6.5, player1turn = False\<rparr>"
      and bs = "[''dd'', ''pp'']" and ws = "[''dp'']"]
  by simp

text \<open>
  What a loop leaves on the board: its colour on the decoded coordinates of its list, the
  old board everywhere else.
\<close>

lemma add_stones_spec:
  "add_stones (cb\<lparr>place_stone := place_stone_spec\<rparr>) b color ss
     = (\<lambda>x. if x \<in> set (map (pc cb) ss) then color else b x)"
  by (induction ss arbitrary: b) (auto simp add: place_stone_spec_def fun_eq_iff)

text \<open>
  C9. Modelled from the spec: with the setup placement of the spec as \<open>place_stone\<close>,
  the two loops commute when no decoded black coordinate is also a decoded white one:
  black stones first and white stones second give the same board as white first and
  black second.
\<close>

theorem setup_stones_commute:
  "set (map (pc cb) bs) \<inter> set (map (pc cb) ws) = {} \<Longrightarrow>
   add_stones (cb\<lparr>place_stone := place_stone_spec\<rparr>)
       (add_stones (cb\<lparr>place_stone := place_stone_spec\<rparr>) b 1 bs) (- 1) ws
     = add_stones (cb\<lparr>place_stone := place_stone_spec\<rparr>)
         (add_stones (cb\<lparr>place_stone := place_stone_spec\<rparr>) b (- 1) ws) 1 bs"
  by (auto simp add: add_stones_spec fun_eq_iff)

text \<open>
  Two black stones and a white one on an empty board, in both orders.
\<close>

theorem setup_stones_commute_witness:
  "set (map (pc small_board) [''dd'', ''pp'']) \<inter> set (map (pc small_board) [''dp'']) = {} \<and>
   add_stones (small_board\<lparr>place_stone := place_stone_spec\<rparr>)
       (add_stones (small_board\<lparr>place_stone := place_stone_spec\<rparr>) (\<lambda>c. 0) 1 [''dd'', ''pp''])
       (- 1) [''dp'']
     = add_stones (small_board\<lparr>place_stone := place_stone_spec\<rparr>)
         (add_stones (small_board\<lparr>place_stone := place_stone_spec\<rparr>) (\<lambda>c. 0) (- 1) [''dp''])
         1 [''dd'', ''pp''] \<and>
   add_stones (small_board\<lparr>place_stone := place_stone_spec\<rparr>)
       (add_stones (small_board\<lparr>place_stone := place_stone_spec\<rparr>) (\<lambda>c. 0) 1 [''dd'', ''pp''])
       (- 1) [''dp''] ''dp'' = - 1"
proof -
  have h: "set (map (pc small_board) [''dd'', ''pp'']) \<inter> set (map (pc small_board) [''dp'']) = {}"
    by simp
  show ?thesis
    using h setup_stones_commute [OF h, of "\<lambda>c. 0"]
    by (simp add: place_stone_spec_def)
qed

subsection \<open>get\_next\_move\<close>

text \<open>
  C2. The look-ahead by cases: no next node gives \<open>(None, None)\<close>; a next node with a
  \<open>W\<close> property gives \<open>'W'\<close> and the first value of the property; a next node with a
  \<open>B\<close> property and no \<open>W\<close> property gives \<open>'B'\<close> and the first value of that
  property; the empty value (a pass) is returned as \<open>None\<close>. For every next node with
  neither property the lookup of \<open>'B'\<close> raises KeyError: no pair is returned, and so no
  Black move with an absent value.
\<close>

theorem get_next_move_cases:
  "(next_child nd = None \<longrightarrow> get_next_move nd = Inr (None, None)) \<and>
   (next_child nd = Some n \<and> properties n ''W'' = Some (v # vs)
      \<longrightarrow> get_next_move nd = Inr (Some ''W'', if v = [] then None else Some v)) \<and>
   (next_child nd = Some n \<and> properties n ''W'' = None \<and> properties n ''B'' = Some (v # vs)
      \<longrightarrow> get_next_move nd = Inr (Some ''B'', if v = [] then None else Some v)) \<and>
   (next_child nd = Some n \<and> properties n ''W'' = None \<and> properties n ''B'' = None
      \<longrightarrow> get_next_move nd = Inl KeyError \<and> get_next_move nd \<noteq> Inr (Some ''B'', None))"
  by (simp add: get_next_move_def first_or_none_def)

text \<open>
  No next node, a White move, a White pass and a Black move as next node; and a next node
  that only sets up a stone (\<open>AB[dd]\<close>), on which the call raises.
\<close>

theorem get_next_move_cases_witness:
  "get_next_move (Node [''B'' \<mapsto> [''aa'']] None) = Inr (None, None) \<and>
   get_next_move (Node Map.empty (Some (Node [''W'' \<mapsto> [''cc'']] None)))
     = Inr (Some ''W'', Some ''cc'') \<and>
   get_next_move (Node Map.empty (Some (Node [''W'' \<mapsto> [[]]] None)))
     = Inr (Some ''W'', None) \<and>
   get_next_move (Node Map.empty (Some (Node [''B'' \<mapsto> [''aa'']] None)))
     = Inr (Some ''B'', Some ''aa'') \<and>
   get_next_move (Node [''B'' \<mapsto> [''aa'']] (Some (Node [''AB'' \<mapsto> [''dd'']] None)))
     = Inl KeyError \<and>
   get_next_move (Node [''B'' \<mapsto> [''aa'']] (Some (Node [''AB'' \<mapsto> [''dd'']] None)))
     \<noteq> Inr (Some ''B'', None)"
  using get_next_move_cases [of "Node [''B'' \<mapsto> [''aa'']] None"]
    get_next_move_cases [of "Node Map.empty (Some (Node [''W'' \<mapsto> [''cc'']] None))"
      "Node [''W'' \<mapsto> [''cc'']] None" "''cc''" "[]"]
    get_next_move_cases [of "Node Map.empty (Some (Node [''W'' \<mapsto> [[]]] None))"
      "Node [''W'' \<mapsto> [[]]] None" "[]" "[]"]
    get_next_move_cases [of "Node Map.empty (Some (Node [''B'' \<mapsto> [''aa'']] None))"
      "Node [''B'' \<mapsto> [''aa'']] None" "''aa''" "[]"]
    get_next_move_cases [of "Node [''B'' \<mapsto> [''aa'']] (Some (Node [''AB'' \<mapsto> [''dd'']] None))"
      "Node [''AB'' \<mapsto> [''dd'']] None"]
  by simp

subsection \<open>handle\_play\_stones\<close>

text \<open>
  The colour that the look-ahead reports is \<open>'W'\<close> or \<open>'B'\<close>, and replacing the turn
  flag by the value it has changes nothing.
\<close>

lemma get_next_move_color:
  "get_next_move nd = Inr (Some c, v) \<Longrightarrow> c = ''W'' \<or> c = ''B''"
  by (auto simp add: get_next_move_def split: option.splits sum.splits)

lemma turn_update_same:
  "player1turn p = t \<Longrightarrow> p\<lparr>player1turn := t\<rparr> = p"
  by auto

text \<open>
  C1. When the move of the node has been applied, giving \<open>p1\<close>, and the next node
  records colour \<open>c\<close>, the result is \<open>p1\<close> with the turn flag set from \<open>c\<close>: White
  to move for \<open>'W'\<close>, Black to move for \<open>'B'\<close>, whatever the flag of \<open>p1\<close> was. In
  particular, at a Black move that is followed by a White move (the second Black move of
  Black, Black, White) the flag says White to move.
\<close>

theorem handle_play_stones_corrects_turn:
  "(play_recorded cb pos nd = Inr (Some p1) \<and> get_next_move nd = Inr (Some c, v)
      \<longrightarrow> handle_play_stones cb pos nd = Inr (Some (p1\<lparr>player1turn := (c = ''B'')\<rparr>))) \<and>
   (properties nd ''W'' = None \<and> properties nd ''B'' = Some (b # bs) \<and>
    next_child nd = Some n \<and> properties n ''W'' = Some (w # ws) \<and>
    play_move cb pos (pc cb b) = Some p2
      \<longrightarrow> handle_play_stones cb pos nd = Inr (Some (p2\<lparr>player1turn := False\<rparr>)))"
proof (intro conjI impI)
  assume a: "play_recorded cb pos nd = Inr (Some p1) \<and> get_next_move nd = Inr (Some c, v)"
  then have "c = ''W'' \<or> c = ''B''"
    using get_next_move_color by blast
  with a show "handle_play_stones cb pos nd = Inr (Some (p1\<lparr>player1turn := (c = ''B'')\<rparr>))"
    by (auto simp add: handle_play_stones_def correct_turn_def turn_update_same)
next
  assume a: "properties nd ''W'' = None \<and> properties nd ''B'' = Some (b # bs) \<and>
    next_child nd = Some n \<and> properties n ''W'' = Some (w # ws) \<and>
    play_move cb pos (pc cb b) = Some p2"
  then have "play_recorded cb pos nd = Inr (Some p2)"
    by (simp add: play_recorded_def first_value_def)
  moreover from a have "get_next_move nd = Inr (Some ''W'', if w = [] then None else Some w)"
    by (simp add: get_next_move_def first_or_none_def)
  ultimately show "handle_play_stones cb pos nd = Inr (Some (p2\<lparr>player1turn := False\<rparr>))"
    by (auto simp add: handle_play_stones_def correct_turn_def turn_update_same)
qed

text \<open>
  The record \<open>;B[aa];B[bb];W[cc]\<close> on the small board: at the first Black node the flag,
  which the move passed to White, is set back to Black; after the second Black move it
  says White to move. The last line gives the flags of the whole walk from an empty root.
\<close>

theorem handle_play_stones_corrects_turn_witness:
  "handle_play_stones small_board
      \<lparr>board = (\<lambda>c. 0), groups = (), komi = 6.5, player1turn = True\<rparr>
      (Node [''B'' \<mapsto> [''aa'']]
        (Some (Node [''B'' \<mapsto> [''bb'']] (Some (Node [''W'' \<mapsto> [''cc'']] None)))))
     = Inr (Some \<lparr>board = (\<lambda>c. 0)(''aa'' := 1), groups = (), komi = 6.5, player1turn = True\<rparr>) \<and>
   handle_play_stones small_board
      \<lparr>board = (\<lambda>c. 0)(''aa'' := 1), groups = (), komi = 6.5, player1turn = True\<rparr>
      (Node [''B'' \<mapsto> [''bb'']] (Some (Node [''W'' \<mapsto> [''cc'']] None)))
     = Inr (Some \<lparr>board = (\<lambda>c. 0)(''aa'' := 1, ''bb'' := 1), groups = (), komi = 6.5,
                  player1turn = False\<rparr>) \<and>
   map (\<lambda>r. map_option player1turn (position r))
     (fst (main_branch_loop small_board NoValue
        \<lparr>board = (\<lambda>c. 0), groups = (), komi = 6.5, player1turn = True\<rparr>
        (Node Map.empty
          (Some (Node [''B'' \<mapsto> [''aa'']]
            (Some (Node [''B'' \<mapsto> [''bb'']] (Some (Node [''W'' \<mapsto> [''cc'']] None)))))))))
     = [Some True, Some True, Some False, Some True]"
  using handle_play_stones_corrects_turn [where cb = small_board
      and pos = "\<lparr>board = (\<lambda>c. 0), groups = (), komi = 6.5, player1turn = True\<rparr>"
      and nd = "Node [''B'' \<mapsto> [''aa'']]
        (Some (Node [''B'' \<mapsto> [''bb'']] (Some (Node [''W'' \<mapsto> [''cc'']] None))))"
      and ?p1.0 = "\<lparr>board = (\<lambda>c. 0)(''aa'' := 1), groups = (), komi = 6.5, player1turn = False\<rparr>"
      and c = "''B''" and v = "Some ''bb''"]
    handle_play_stones_corrects_turn [where cb = small_board
      and pos = "\<lparr>board = (\<lambda>c. 0)(''aa'' := 1), groups = (), komi = 6.5, player1turn = True\<rparr>"
      and nd = "Node [''B'' \<mapsto> [''bb'']] (Some (Node [''W'' \<mapsto> [''cc'']] None))"
      and b = "''bb''" and bs = "[]" and n = "Node [''W'' \<mapsto> [''cc'']] None"
      and w = "''cc''" and ws = "[]"
      and ?p2.0 = "\<lparr>board = (\<lambda>c. 0)(''aa'' := 1, ''bb'' := 1), groups = (), komi = 6.5,
                    player1turn = False\<rparr>"]
  by (simp add: walk_defs)

subsection \<open>The walk along the main line\<close>

text \<open>
  One turn of the loop: it ends with the exception of the replay, it yields the last
  record, or it yields a record and goes on at the next node.
\<close>

lemma main_branch_loop_raise:
  "handle_play_stones cb (handle_add_stones cb pos nd) nd = Inl e
    \<Longrightarrow> main_branch_loop cb res pos nd = ([], Some e)"
  by (cases nd) simp

lemma main_branch_loop_last:
  "handle_play_stones cb (handle_add_stones cb pos nd) nd = Inr pos2 \<Longrightarrow>
   get_next_move nd = Inr (c, nm) \<Longrightarrow> pos2 = None \<or> next_child nd = None \<Longrightarrow>
   main_branch_loop cb res pos nd = ([\<lparr>position = pos2, next_move = nm, result = res\<rparr>], None)"
  by (cases nd) (auto simp add: Let_def split: option.splits)

lemma main_branch_loop_step:
  "handle_play_stones cb (handle_add_stones cb pos nd) nd = Inr (Some p) \<Longrightarrow>
   get_next_move nd = Inr (c, nm) \<Longrightarrow> next_child nd = Some n \<Longrightarrow>
   main_branch_loop cb res pos nd =
     (\<lparr>position = Some p, next_move = nm, result = res\<rparr> # fst (main_branch_loop cb res p n),
      snd (main_branch_loop cb res p n))"
  by (cases nd) (auto simp add: Let_def split: option.splits prod.splits)

text \<open>
  C3. When the move recorded at a node is illegal (\<open>play_move\<close> returns \<open>None\<close>) and the
  node has a next node with a move, the replay reads the turn flag of \<open>None\<close>:
  AttributeError is raised and the walk ends with it, without a record for the node. Only
  at the last node of the main line does \<open>None\<close> come out of the replay and end the walk
  with a record whose position is absent.
\<close>

theorem illegal_move_before_next_node_raises:
  "(play_recorded cb (handle_add_stones cb pos nd) nd = Inr None \<and>
    get_next_move nd = Inr (Some c, v)
      \<longrightarrow> handle_play_stones cb (handle_add_stones cb pos nd) nd = Inl AttributeError \<and>
          main_branch_loop cb res pos nd = ([], Some AttributeError)) \<and>
   (play_recorded cb (handle_add_stones cb pos nd) nd = Inr None \<and> next_child nd = None
      \<longrightarrow> handle_play_stones cb (handle_add_stones cb pos nd) nd = Inr None \<and>
          main_branch_loop cb res pos nd
            = ([\<lparr>position = None, next_move = None, result = res\<rparr>], None))"
proof (intro conjI impI)
  assume a: "play_recorded cb (handle_add_stones cb pos nd) nd = Inr None \<and>
    get_next_move nd = Inr (Some c, v)"
  then have "c = ''W'' \<or> c = ''B''"
    by (auto simp add: get_next_move_def split: option.splits sum.splits)
  with a show h: "handle_play_stones cb (handle_add_stones cb pos nd) nd = Inl AttributeError"
    by (auto simp add: handle_play_stones_def correct_turn_def)
  then show "main_branch_loop cb res pos nd = ([], Some AttributeError)"
    by (rule main_branch_loop_raise)
next
  assume a: "play_recorded cb (handle_add_stones cb pos nd) nd = Inr None \<and> next_child nd = None"
  then have g: "get_next_move nd = Inr (None, None)"
    by (simp add: get_next_move_def)
  with a show h: "handle_play_stones cb (handle_add_stones cb pos nd) nd = Inr None"
    by (simp add: handle_play_stones_def correct_turn_def)
  from h g a show "main_branch_loop cb res pos nd
            = ([\<lparr>position = None, next_move = None, result = res\<rparr>], None)"
    by (simp add: main_branch_loop_last)
qed

text \<open>
  The record \<open>;GM[1]SZ[9]KM[6.5];B[aa];W[aa];B[bb]\<close> on the small board: White's move on
  the occupied point is illegal, and the walk yields the records of the root and of
  \<open>B[aa]\<close> and then raises.
\<close>

theorem illegal_move_before_next_node_raises_witness:
  "main_branch_loop small_board NoValue
      \<lparr>board = (\<lambda>c. 0)(''aa'' := 1), groups = (), komi = 6.5, player1turn = False\<rparr>
      (Node [''W'' \<mapsto> [''aa'']] (Some (Node [''B'' \<mapsto> [''bb'']] None)))
     = ([], Some AttributeError) \<and>
   main_branch_loop small_board NoValue
      \<lparr>board = (\<lambda>c. 0), groups = (), komi = 6.5, player1turn = True\<rparr>
      (Node [''GM'' \<mapsto> [''1''], ''SZ'' \<mapsto> [''9''], ''KM'' \<mapsto> [''6.5'']]
        (Some (Node [''B'' \<mapsto> [''aa'']]
          (Some (Node [''W'' \<mapsto> [''aa'']] (Some (Node [''B'' \<mapsto> [''bb'']] None)))))))
     = ([\<lparr>position = Some \<lparr>board = (\<lambda>c. 0), groups = (), komi = 6.5, player1turn = True\<rparr>,
          next_move = Some ''aa'', result = NoValue\<rparr>,
         \<lparr>position = Some \<lparr>board = (\<lambda>c. 0)(''aa'' := 1), groups = (), komi = 6.5,
                           player1turn = False\<rparr>,
          next_move = Some ''aa'', result = NoValue\<rparr>],
        Some AttributeError)"
  using illegal_move_before_next_node_raises [of small_board
      "\<lparr>board = (\<lambda>c. 0)(''aa'' := 1), groups = (), komi = 6.5, player1turn = False\<rparr>"
      "Node [''W'' \<mapsto> [''aa'']] (Some (Node [''B'' \<mapsto> [''bb'']] None))" "''B''" "Some ''bb''" NoValue]
  by (simp add: walk_defs)

text \<open>
  C10. When the next node records a pass (the first value of its move property is the
  empty string), the look-ahead returns no coordinate; the record of the current node, if
  its replay gives a position, has no next move and is not usable, and the walk goes on at
  the next node.
\<close>

theorem pass_next_move_unusable:
  "next_child nd = Some n \<and>
   (properties n ''W'' = Some ([] # vs) \<or>
    properties n ''W'' = None \<and> properties n ''B'' = Some ([] # vs))
     \<longrightarrow> (\<exists>c. get_next_move nd = Inr (Some c, None)) \<and>
         (\<forall>p2. handle_play_stones cb (handle_add_stones cb pos nd) nd = Inr (Some p2)
            \<longrightarrow> main_branch_loop cb res pos nd
                 = (\<lparr>position = Some p2, next_move = None, result = res\<rparr>
                      # fst (main_branch_loop cb res p2 n),
                    snd (main_branch_loop cb res p2 n)) \<and>
                \<not> is_usable \<lparr>position = Some p2, next_move = None, result = res\<rparr>)"
proof (intro impI)
  assume a: "next_child nd = Some n \<and>
   (properties n ''W'' = Some ([] # vs) \<or>
    properties n ''W'' = None \<and> properties n ''B'' = Some ([] # vs))"
  then obtain c where g: "get_next_move nd = Inr (Some c, None)"
    by (auto simp add: get_next_move_def first_or_none_def)
  have "main_branch_loop cb res pos nd
                 = (\<lparr>position = Some p2, next_move = None, result = res\<rparr>
                      # fst (main_branch_loop cb res p2 n),
                    snd (main_branch_loop cb res p2 n))"
    if "handle_play_stones cb (handle_add_stones cb pos nd) nd = Inr (Some p2)" for p2
    using that g a by (simp add: main_branch_loop_step)
  with g show "(\<exists>c. get_next_move nd = Inr (Some c, None)) \<and>
         (\<forall>p2. handle_play_stones cb (handle_add_stones cb pos nd) nd = Inr (Some p2)
            \<longrightarrow> main_branch_loop cb res pos nd
                 = (\<lparr>position = Some p2, next_move = None, result = res\<rparr>
                      # fst (main_branch_loop cb res p2 n),
                    snd (main_branch_loop cb res p2 n)) \<and>
                \<not> is_usable \<lparr>position = Some p2, next_move = None, result = res\<rparr>)"
    by (simp add: is_usable_def)
qed

text \<open>
  The record \<open>;B[aa];W[];B[bb]\<close> with result \<open>B+R\<close>: three records, the first of
  them without a next move.
\<close>

theorem pass_next_move_unusable_witness:
  "get_next_move (Node [''B'' \<mapsto> [''aa'']]
      (Some (Node [''W'' \<mapsto> [[]]] (Some (Node [''B'' \<mapsto> [''bb'']] None)))))
     = Inr (Some ''W'', None) \<and>
   main_branch_loop small_board (Scalar ''B+R'')
      \<lparr>board = (\<lambda>c. 0), groups = (), komi = 6.5, player1turn = True\<rparr>
      (Node [''B'' \<mapsto> [''aa'']]
        (Some (Node [''W'' \<mapsto> [[]]] (Some (Node [''B'' \<mapsto> [''bb'']] None)))))
     = ([\<lparr>position = Some \<lparr>board = (\<lambda>c. 0)(''aa'' := 1), groups = (), komi = 6.5,
                           player1turn = False\<rparr>,
          next_move = None, result = Scalar ''B+R''\<rparr>,
         \<lparr>position = Some \<lparr>board = (\<lambda>c. 0)(''aa'' := 1), groups = (), komi = 6.5,
                           player1turn = True\<rparr>,
          next_move = Some ''bb'', result = Scalar ''B+R''\<rparr>,
         \<lparr>position = Some \<lparr>board = (\<lambda>c. 0)(''aa'' := 1, ''bb'' := 1), groups = (), komi = 6.5,
                           player1turn = False\<rparr>,
          next_move = None, result = Scalar ''B+R''\<rparr>], None) \<and>
   \<not> is_usable
      \<lparr>position = Some \<lparr>board = (\<lambda>c. 0)(''aa'' := 1), groups = (), komi = 6.5 :: real,
                        player1turn = False\<rparr>,
       next_move = None, result = Scalar ''B+R''\<rparr>"
  using pass_next_move_unusable [of
      "Node [''B'' \<mapsto> [''aa'']]
        (Some (Node [''W'' \<mapsto> [[]]] (Some (Node [''B'' \<mapsto> [''bb'']] None))))"
      "Node [''W'' \<mapsto> [[]]] (Some (Node [''B'' \<mapsto> [''bb'']] None))" "[]" small_board
      "\<lparr>board = (\<lambda>c. 0), groups = (), komi = 6.5, player1turn = True\<rparr>" "Scalar ''B+R''"]
  by (simp add: walk_defs is_usable_def)

subsection \<open>SgfWrapper\<close>

text \<open>
  C7. A root whose \<open>GM\<close> property holds one value that converts to an integer other
  than 1 makes the construction raise AssertionError: no wrapper is built, so there is
  nothing to walk. Conversely a wrapper is built only if the game type is 1.
\<close>

theorem wrong_game_type_fails:
  "(properties game ''GM'' = Some [s] \<and> py_int cb s = Some g \<and> g \<noteq> 1
      \<longrightarrow> SgfWrapper_init cb (game # games) = Inl AssertionError) \<and>
   (SgfWrapper_init cb (game # games) = Inr w
      \<longrightarrow> int_of_value cb
            (sgf_prop (Some (case properties game ''GM'' of None \<Rightarrow> [''1''] | Some vs \<Rightarrow> vs)))
          = Inr 1)"
  by (auto simp add: SgfWrapper_init_def int_of_value_def Let_def split: sum.splits if_splits)

text \<open>
  \<open>GM[2]\<close> fails, the same record with \<open>GM[1]\<close> is accepted.
\<close>

theorem wrong_game_type_fails_witness:
  "SgfWrapper_init small_board
     [Node [''GM'' \<mapsto> [''2''], ''SZ'' \<mapsto> [''9''], ''KM'' \<mapsto> [''6.5'']]
        (Some (Node [''B'' \<mapsto> [''cc'']] None))]
     = Inl AssertionError \<and>
   SgfWrapper_init small_board
     [Node [''GM'' \<mapsto> [''1''], ''SZ'' \<mapsto> [''9''], ''KM'' \<mapsto> [''6.5'']]
        (Some (Node [''B'' \<mapsto> [''cc'']] None))]
     = Inr \<lparr>sgf_game = Node [''GM'' \<mapsto> [''1''], ''SZ'' \<mapsto> [''9''], ''KM'' \<mapsto> [''6.5'']]
                          (Some (Node [''B'' \<mapsto> [''cc'']] None)),
            sgf_result = NoValue, sgf_komi = 6.5, sgf_board_size = 9\<rparr>"
  using wrong_game_type_fails [of
      "Node [''GM'' \<mapsto> [''2''], ''SZ'' \<mapsto> [''9''], ''KM'' \<mapsto> [''6.5'']]
        (Some (Node [''B'' \<mapsto> [''cc'']] None))" "''2''" small_board 2 "[]"]
  by (simp add: SgfWrapper_init_def int_of_value_def float_of_value_def)

text \<open>
  C4. The record of two nodes: a root with \<open>GM[1]\<close>, \<open>SZ[9]\<close>, \<open>KM[6.5]\<close> and no
  stones or move of its own, and one child that plays Black at \<open>xy\<close> and has no next
  node. The construction succeeds and leaves 9 as the process-wide board size, whatever
  it was before. A walk of the wrapper, started while the process-wide size is \<open>n\<close>,
  yields exactly two records and no exception: the first holds the initial position for
  size \<open>n\<close> with the komi set and Black to move (its board is the initial board) and
  \<open>xy\<close> as next move; the second holds what \<open>play_move\<close> makes of that position at \<open>xy\<close>
  and no next move. Walked right after its construction, the wrapper therefore starts
  from the initial position of size 9.
\<close>

theorem minimal_record_main_branch:
  assumes "properties rt ''GM'' = Some [''1'']"
    and "properties rt ''SZ'' = Some [''9'']"
    and "properties rt ''KM'' = Some [''6.5'']"
    and "properties rt ''AB'' = None" and "properties rt ''AW'' = None"
    and "properties rt ''W'' = None" and "properties rt ''B'' = None"
    and "next_child rt = Some child"
    and "properties child ''B'' = Some [xy]" and "xy \<noteq> []"
    and "properties child ''W'' = None"
    and "properties child ''AB'' = None" and "properties child ''AW'' = None"
    and "next_child child = None"
    and "py_int cb ''1'' = Some 1" and "py_int cb ''9'' = Some 9"
    and "py_float cb ''6.5'' = Some k"
  shows "\<exists>w. SgfWrapper_init cb (rt # games) = Inr w \<and>
           board_size_after_init cb n0 (rt # games) = 9 \<and>
           get_main_branch cb (board_size_after_init cb n0 (rt # games)) w
             = ([\<lparr>position = Some ((initial_state cb 9)\<lparr>komi := k, player1turn := True\<rparr>),
                  next_move = Some xy, result = sgf_result w\<rparr>,
                 \<lparr>position =
                    play_move cb ((initial_state cb 9)\<lparr>komi := k, player1turn := True\<rparr>)
                      (pc cb xy),
                  next_move = None, result = sgf_result w\<rparr>], None) \<and>
           (\<forall>n. get_main_branch cb n w
             = ([\<lparr>position = Some ((initial_state cb n)\<lparr>komi := k, player1turn := True\<rparr>),
                  next_move = Some xy, result = sgf_result w\<rparr>,
                 \<lparr>position =
                    play_move cb ((initial_state cb n)\<lparr>komi := k, player1turn := True\<rparr>)
                      (pc cb xy),
                  next_move = None, result = sgf_result w\<rparr>], None) \<and>
             board ((initial_state cb n)\<lparr>komi := k, player1turn := True\<rparr>)
               = board (initial_state cb n))"
proof -
  let ?w = "\<lparr>sgf_game = rt, sgf_result = sgf_prop (properties rt ''RE''),
             sgf_komi = k, sgf_board_size = 9\<rparr>"
  have init: "SgfWrapper_init cb (rt # games) = Inr ?w"
    using assms by (simp add: SgfWrapper_init_def int_of_value_def float_of_value_def)
  then have size: "board_size_after_init cb n0 (rt # games) = 9"
    by (simp add: board_size_after_init_def)
  have walk: "get_main_branch cb n ?w
      = ([\<lparr>position = Some ((initial_state cb n)\<lparr>komi := k, player1turn := True\<rparr>),
           next_move = Some xy, result = sgf_result ?w\<rparr>,
          \<lparr>position =
             play_move cb ((initial_state cb n)\<lparr>komi := k, player1turn := True\<rparr>) (pc cb xy),
           next_move = None, result = sgf_result ?w\<rparr>], None)" for n
  proof -
    let ?i = "(initial_state cb n)\<lparr>komi := k\<rparr>"
    let ?p0 = "(initial_state cb n)\<lparr>komi := k, player1turn := True\<rparr>"
    have add0: "handle_add_stones cb ?i rt = ?i"
      using assms by (simp add: handle_add_stones_def get_or_empty_def)
    have next0: "get_next_move rt = Inr (Some ''B'', Some xy)"
      using assms by (simp add: get_next_move_def first_or_none_def)
    have play0: "handle_play_stones cb ?i rt = Inr (Some ?p0)"
      using assms next0
      by (auto simp add: handle_play_stones_def play_recorded_def correct_turn_def
          turn_update_same)
    have add1: "handle_add_stones cb ?p0 child = ?p0"
      using assms by (simp add: handle_add_stones_def get_or_empty_def)
    have next1: "get_next_move child = Inr (None, None)"
      using assms by (simp add: get_next_move_def)
    have play1: "handle_play_stones cb ?p0 child = Inr (play_move cb ?p0 (pc cb xy))"
      using assms next1
      by (simp add: handle_play_stones_def play_recorded_def first_value_def correct_turn_def)
    have loop1: "main_branch_loop cb res ?p0 child
        = ([\<lparr>position = play_move cb ?p0 (pc cb xy), next_move = None, result = res\<rparr>], None)"
      for res
      using add1 play1 next1 assms by (simp add: main_branch_loop_last)
    have loop0: "main_branch_loop cb res ?i rt
        = ([\<lparr>position = Some ?p0, next_move = Some xy, result = res\<rparr>,
            \<lparr>position = play_move cb ?p0 (pc cb xy), next_move = None, result = res\<rparr>], None)"
      for res
      using add0 play0 next0 assms loop1 by (simp add: main_branch_loop_step)
    show ?thesis
      using loop0 by (simp add: get_main_branch_def)
  qed
  have "get_main_branch cb (board_size_after_init cb n0 (rt # games)) ?w
      = ([\<lparr>position = Some ((initial_state cb 9)\<lparr>komi := k, player1turn := True\<rparr>),
           next_move = Some xy, result = sgf_result ?w\<rparr>,
          \<lparr>position =
             play_move cb ((initial_state cb 9)\<lparr>komi := k, player1turn := True\<rparr>) (pc cb xy),
           next_move = None, result = sgf_result ?w\<rparr>], None)"
    unfolding size by (rule walk)
  with init size walk show ?thesis
    by simp
qed

text \<open>
  The record \<open>;GM[1]SZ[9]KM[6.5];B[cc]\<close> on the small board, constructed while the
  process-wide size was 19 and walked right afterwards.
\<close>

theorem minimal_record_main_branch_witness:
  "\<exists>w. SgfWrapper_init small_board
          [Node [''GM'' \<mapsto> [''1''], ''SZ'' \<mapsto> [''9''], ''KM'' \<mapsto> [''6.5'']]
             (Some (Node [''B'' \<mapsto> [''cc'']] None))] = Inr w \<and>
        board_size_after_init small_board 19
          [Node [''GM'' \<mapsto> [''1''], ''SZ'' \<mapsto> [''9''], ''KM'' \<mapsto> [''6.5'']]
             (Some (Node [''B'' \<mapsto> [''cc'']] None))] = 9 \<and>
        get_main_branch small_board
          (board_size_after_init small_board 19
            [Node [''GM'' \<mapsto> [''1''], ''SZ'' \<mapsto> [''9''], ''KM'' \<mapsto> [''6.5'']]
               (Some (Node [''B'' \<mapsto> [''cc'']] None))]) w
          = ([\<lparr>position = Some \<lparr>board = (\<lambda>c. 0), groups = (), komi = 6.5, player1turn = True\<rparr>,
               next_move = Some ''cc'', result = NoValue\<rparr>,
              \<lparr>position = Some \<lparr>board = (\<lambda>c. 0)(''cc'' := 1), groups = (), komi = 6.5,
                                player1turn = False\<rparr>,
               next_move = None, result = NoValue\<rparr>], None)"
  using minimal_record_main_branch [where cb = small_board and k = "6.5" and xy = "''cc''"
      and games = "[]" and ?n0.0 = 19
      and child = "Node [''B'' \<mapsto> [''cc'']] None"
      and rt = "Node [''GM'' \<mapsto> [''1''], ''SZ'' \<mapsto> [''9''], ''KM'' \<mapsto> [''6.5'']]
         (Some (Node [''B'' \<mapsto> [''cc'']] None))"]
  by (simp add: SgfWrapper_init_def int_of_value_def float_of_value_def
      board_size_after_init_def)

end
